theory Spec2Isabelle
  imports Main "HOL-Library.Word"
begin

unbundle bit_operations_syntax

section \<open>Machine model\<close>

text \<open>
  The target is a flat 64-bit address space (the repository's own sanity header demands
  that \<open>size_t\<close> and \<open>uintptr_t\<close> have the same width): \<open>size_t\<close>, \<open>uintptr_t\<close> and
  object pointers are 64-bit words, arithmetic on them wraps, and the null pointer is the
  address 0. \<open>unsigned int\<close>, the argument type of the compiler builtins
  \<open>__builtin_popcount\<close> and \<open>__builtin_ctz\<close>, is a 32-bit word.
\<close>

type_synonym size_t = "64 word"
type_synonym uintptr_t = "64 word"
type_synonym ptr = "64 word"

definition NULL :: ptr where
  "NULL = 0"

definition SIZE_MAX :: size_t where
  "SIZE_MAX = - 1"

text \<open>A failed \<open>assert\<close> aborts the program (assertions are enabled).\<close>

datatype abort = AssertionFailed

text \<open>
  \<open>__builtin_popcount (unsigned int)\<close>: the number of set bits. The sources pass a
  \<open>size_t\<close>, which C converts to \<open>unsigned int\<close> first, dropping the upper 32 bits.
\<close>

definition builtin_popcount :: "size_t \<Rightarrow> nat" where
  "builtin_popcount x =
     (let w = (ucast x :: 32 word) in length (filter (bit w) [0..<32]))"

text \<open>
  \<open>__builtin_ctz (unsigned int)\<close>: the number of trailing zero bits, again after the
  conversion to \<open>unsigned int\<close>. C leaves the result for 0 undefined; here it is 32.
\<close>

definition builtin_ctz :: "size_t \<Rightarrow> nat" where
  "builtin_ctz x =
     (let w = (ucast x :: 32 word) in length (takeWhile (\<lambda>n. \<not> bit w n) [0..<32]))"

section \<open>Slices (slice.h)\<close>

record larr =
  len :: size_t
  arr :: ptr

text \<open>\<open>_larr_mk\<close>\<close>

definition larr_mk :: "size_t \<Rightarrow> ptr \<Rightarrow> larr" where
  "larr_mk n p = \<lparr>len = n, arr = p\<rparr>"

text \<open>\<open>_larr_addrof\<close>: the address of the element, or the null pointer out of bounds.\<close>

definition larr_addrof :: "larr \<Rightarrow> size_t \<Rightarrow> size_t \<Rightarrow> ptr" where
  "larr_addrof a index elemSize =
     (if index < len a then arr a + elemSize * index else NULL)"

text \<open>\<open>_larr_advance\<close>: the slice is passed by pointer and updated; the model returns it.\<close>

definition larr_advance :: "larr \<Rightarrow> size_t \<Rightarrow> size_t \<Rightarrow> larr" where
  "larr_advance a numElems elemSize =
     (let numElems = (if numElems > len a then len a else numElems);
          a = a\<lparr>len := len a - numElems\<rparr>;
          a = a\<lparr>arr := arr a + elemSize * numElems\<rparr>
      in a)"

text \<open>\<open>_larr_shrink\<close>\<close>

definition larr_shrink :: "larr \<Rightarrow> size_t \<Rightarrow> larr" where
  "larr_shrink a numElems =
     (let numElems = (if numElems > len a then len a else numElems)
      in a\<lparr>len := len a - numElems\<rparr>)"

section \<open>Aligned allocation (alloc/aligned.c)\<close>

text \<open>\<open>is_aligned\<close>: the pointer has its low \<open>log_alignment\<close> bits clear.\<close>

definition is_aligned :: "ptr \<Rightarrow> size_t \<Rightarrow> bool" where
  "is_aligned p log_alignment =
     (let mask = push_bit (unat log_alignment) (1 :: size_t) - 1
      in p AND mask = 0)"


text \<open>
  The C library is an environment of state transformers on a heap \<open>'h\<close> that the model
  leaves abstract: \<open>aligned_alloc\<close> and \<open>realloc\<close> return a pointer (null on failure)
  and the new heap, \<open>free\<close> and \<open>memcpy\<close> return the new heap.
\<close>

record 'h libc =
  c_aligned_alloc :: "size_t \<Rightarrow> size_t \<Rightarrow> 'h \<Rightarrow> ptr \<times> 'h"
  c_realloc :: "ptr \<Rightarrow> size_t \<Rightarrow> 'h \<Rightarrow> ptr \<times> 'h"
  c_free :: "ptr \<Rightarrow> 'h \<Rightarrow> 'h"
  c_memcpy :: "ptr \<Rightarrow> ptr \<Rightarrow> size_t \<Rightarrow> 'h \<Rightarrow> 'h"

text \<open>\<open>aligned_realloc\<close> (exported as \<open>std_aalloc\<close>): the returned pointer and the heap.\<close>

definition aligned_realloc :: "'h libc \<Rightarrow> ptr \<Rightarrow> size_t \<Rightarrow> size_t \<Rightarrow> 'h \<Rightarrow> ptr \<times> 'h" where
  "aligned_realloc L p alignment size' h =
     (if p = NULL then c_aligned_alloc L alignment size' h
      else if size' = 0 then (NULL, c_free L p h)
      else if builtin_popcount alignment \<noteq> 1 then (NULL, h)
      else
        let (new, h1) = c_aligned_alloc L alignment size' h in
        if new = NULL then (NULL, h1)
        else
          let (attempt, h2) = c_realloc L p size' h1 in
          if is_aligned attempt (of_nat (builtin_ctz alignment))
          then (attempt, c_free L new h2)
          else (new, c_free L attempt (c_memcpy L new attempt size' h2)))"

text \<open>
  The \<open>return\<close> statement by which \<open>aligned_realloc\<close> leaves, in the order of the source:
  the direct allocation for a null pointer, the release for size 0, the rejected
  alignment, the failed reservation, the cheap path \<open>free(new); return attempt\<close>, and the
  copy into the reservation. The source has no other \<open>return\<close>.
\<close>

datatype exit =
    Exit_alloc
  | Exit_release
  | Exit_alignment
  | Exit_reservation
  | Exit_cheap_path
  | Exit_copy

definition aligned_realloc_exit :: "'h libc \<Rightarrow> ptr \<Rightarrow> size_t \<Rightarrow> size_t \<Rightarrow> 'h \<Rightarrow> exit" where
  "aligned_realloc_exit L p alignment size' h =
     (if p = NULL then Exit_alloc
      else if size' = 0 then Exit_release
      else if builtin_popcount alignment \<noteq> 1 then Exit_alignment
      else
        let (new, h1) = c_aligned_alloc L alignment size' h in
        if new = NULL then Exit_reservation
        else
          let (attempt, h2) = c_realloc L p size' h1 in
          if is_aligned attempt (of_nat (builtin_ctz alignment))
          then Exit_cheap_path
          else Exit_copy)"

section \<open>Allocator interface (alloc/unaligned.h)\<close>

text \<open>
  An \<open>alloc_t\<close> is a function pointer with hidden state: a request \<open>(ptr, size)\<close> returns a
  pointer (null on failure) and changes the allocator's state \<open>'h\<close>.
\<close>

type_synonym 'h alloc_t = "ptr \<Rightarrow> size_t \<Rightarrow> 'h \<Rightarrow> ptr \<times> 'h"

definition allocIn :: "'h alloc_t \<Rightarrow> size_t \<Rightarrow> 'h \<Rightarrow> ptr \<times> 'h" where
  "allocIn allocator size' h = allocator NULL size' h"

definition reallocIn :: "'h alloc_t \<Rightarrow> ptr \<Rightarrow> size_t \<Rightarrow> 'h \<Rightarrow> ptr \<times> 'h" where
  "reallocIn allocator p size' h = allocator p size' h"

definition freeIn :: "'h alloc_t \<Rightarrow> ptr \<Rightarrow> 'h \<Rightarrow> 'h" where
  "freeIn allocator p h = snd (allocator p 0 h)"

section \<open>Growable buffer (buffer.h and its implementation)\<close>

record dynarr =
  cap :: size_t
  len :: size_t
  buf :: ptr

text \<open>
  Every operation takes the buffer and the state and returns the value the C function
  returns, the buffer as it is left behind the pointer \<open>arr\<close>, and the state.
  \<open>memcpy\<close> is the C library's, a parameter as above.
\<close>

type_synonym 'h memcpy_t = "ptr \<Rightarrow> ptr \<Rightarrow> size_t \<Rightarrow> 'h \<Rightarrow> 'h"

text \<open>\<open>_dynarr_init\<close>\<close>

definition dynarr_init :: "'h alloc_t \<Rightarrow> dynarr \<Rightarrow> size_t \<Rightarrow> size_t \<Rightarrow> 'h \<Rightarrow> bool \<times> dynarr \<times> 'h" where
  "dynarr_init mem a cap0 size' h =
     (if cap0 = 0 then (False, a, h)
      else if cap0 * size' < size' then (False, a, h)
      else
        let (p, h1) = allocIn mem (cap0 * size') h;
            a = a\<lparr>buf := p\<rparr>
        in if buf a = NULL then (False, a, h1)
           else
             let a = a\<lparr>cap := cap0\<rparr>;
                 a = a\<lparr>len := 0\<rparr>
             in (True, a, h1))"

text \<open>\<open>_dynarr_deinit\<close>\<close>

definition dynarr_deinit :: "'h alloc_t \<Rightarrow> dynarr \<Rightarrow> 'h \<Rightarrow> dynarr \<times> 'h" where
  "dynarr_deinit mem a h =
     (let a = a\<lparr>cap := 0\<rparr>;
          a = a\<lparr>len := 0\<rparr>;
          h1 = freeIn mem (buf a) h;
          a = a\<lparr>buf := NULL\<rparr>
      in (a, h1))"

text \<open>
  \<open>_dynarr_push\<close>: \<open>elem\<close> is the address the new element is copied from. The last
  three statements of the function, shared by both paths, are \<open>dynarr_push_copy\<close>.
\<close>

definition dynarr_push_copy ::
  "'h memcpy_t \<Rightarrow> dynarr \<Rightarrow> ptr \<Rightarrow> size_t \<Rightarrow> 'h \<Rightarrow> bool \<times> dynarr \<times> 'h" where
  "dynarr_push_copy memcpy a elem elemSize h =
     (let h1 = memcpy (buf a + elemSize * len a) elem elemSize h;
          a = a\<lparr>len := len a + 1\<rparr>
      in (True, a, h1))"

definition dynarr_push ::
  "'h alloc_t \<Rightarrow> 'h memcpy_t \<Rightarrow> dynarr \<Rightarrow> ptr \<Rightarrow> size_t \<Rightarrow> 'h \<Rightarrow> abort + bool \<times> dynarr \<times> 'h" where
  "dynarr_push mem memcpy a elem elemSize h =
     (if \<not> (cap a \<noteq> 0) then Inl AssertionFailed
      else if len a = cap a then
        if cap a \<ge> SIZE_MAX div 2 then Inr (False, a, h)
        else
          let a = a\<lparr>cap := cap a * 2\<rparr>;
              (new, h1) = reallocIn mem (buf a) (cap a * elemSize) h
          in if buf a = NULL then Inr (False, a, h1)
             else
               let a = a\<lparr>buf := new\<rparr>
               in Inr (dynarr_push_copy memcpy a elem elemSize h1)
      else Inr (dynarr_push_copy memcpy a elem elemSize h))"

text \<open>\<open>_dynarr_peek\<close>\<close>

definition dynarr_peek :: "dynarr \<Rightarrow> size_t \<Rightarrow> ptr" where
  "dynarr_peek a elemSize =
     (if len a = 0 then NULL else buf a + elemSize * (len a - 1))"

text \<open>\<open>_dynarr_pop\<close>\<close>

definition dynarr_pop :: "dynarr \<Rightarrow> size_t \<Rightarrow> ptr \<times> dynarr" where
  "dynarr_pop a elemSize =
     (if len a = 0 then (NULL, a)
      else let a = a\<lparr>len := len a - 1\<rparr> in (buf a + elemSize * len a, a))"

text \<open>\<open>_dynarr_resize\<close>\<close>

definition dynarr_resize :: "'h alloc_t \<Rightarrow> dynarr \<Rightarrow> size_t \<Rightarrow> size_t \<Rightarrow> 'h \<Rightarrow> bool \<times> dynarr \<times> 'h" where
  "dynarr_resize mem a newCap elemSize h =
     (if newCap = 0 then (False, a, h)
      else
        let (new, h1) = reallocIn mem (buf a) (cap a * elemSize) h
        in if new = NULL then (False, a, h1)
           else
             let a = a\<lparr>cap := newCap\<rparr>;
                 a = (if newCap < len a then a\<lparr>len := newCap\<rparr> else a);
                 a = a\<lparr>buf := new\<rparr>
             in (True, a, h1))"

section \<open>Tagged pointers (alloc/tags.h)\<close>

text \<open>
  \<open>alignof(max_align_t)\<close> is a constant of the platform, here the parameter \<open>ma\<close> of every
  definition (16 on the common 64-bit targets). A \<open>tagged_ptr\<close> is the union
  \<open>bitsptr_t\<close>, whose members \<open>p\<close> and \<open>u\<close> are two readings of one 64-bit word.
\<close>

type_synonym tagged_ptr = "64 word"

definition CHIM_PTRTAGBITS_MAX :: "size_t \<Rightarrow> nat" where
  "CHIM_PTRTAGBITS_MAX ma = builtin_ctz ma"

definition CHIM_PTRTAG_PTRMASK :: "size_t \<Rightarrow> uintptr_t" where
  "CHIM_PTRTAG_PTRMASK ma = push_bit (CHIM_PTRTAGBITS_MAX ma) (NOT 0)"

definition CHIM_PTRTAG_BITSMASK :: "size_t \<Rightarrow> uintptr_t" where
  "CHIM_PTRTAG_BITSMASK ma = NOT (CHIM_PTRTAG_PTRMASK ma)"

definition is_taggable :: "size_t \<Rightarrow> ptr \<Rightarrow> bool" where
  "is_taggable ma p = (p AND CHIM_PTRTAG_PTRMASK ma = 0)"

definition setTag :: "size_t \<Rightarrow> tagged_ptr \<Rightarrow> uintptr_t \<Rightarrow> abort + tagged_ptr" where
  "setTag ma tp tag =
     (if \<not> (tag AND of_nat (CHIM_PTRTAGBITS_MAX ma) = 0) then Inl AssertionFailed
      else Inr (tp OR tag))"

definition to_tagged_ptr :: "size_t \<Rightarrow> ptr \<Rightarrow> uintptr_t \<Rightarrow> abort + tagged_ptr" where
  "to_tagged_ptr ma p tag =
     (if \<not> is_taggable ma p then Inl AssertionFailed
      else setTag ma p tag)"

definition unTag :: "size_t \<Rightarrow> tagged_ptr \<Rightarrow> ptr" where
  "unTag ma tp = tp AND CHIM_PTRTAG_PTRMASK ma"

definition getTag :: "size_t \<Rightarrow> tagged_ptr \<Rightarrow> uintptr_t" where
  "getTag ma tp = tp AND CHIM_PTRTAG_BITSMASK ma"

section \<open>Alignment arithmetic (alignment.h)\<close>

definition alignUp :: "uintptr_t \<Rightarrow> size_t \<Rightarrow> abort + uintptr_t" where
  "alignUp bits alignment_pow2 =
     (if \<not> (builtin_popcount alignment_pow2 = 1) then Inl AssertionFailed
      else
        let mask = alignment_pow2 - 1;
            bits = (if bits AND mask \<noteq> 0 then bits + ((NOT bits AND mask) + 1) else bits)
        in Inr bits)"

definition alignDown :: "uintptr_t \<Rightarrow> size_t \<Rightarrow> abort + uintptr_t" where
  "alignDown bits alignment_pow2 =
     (if \<not> (builtin_popcount alignment_pow2 = 1) then Inl AssertionFailed
      else
        let mask = alignment_pow2 - 1
        in Inr (bits AND NOT mask))"

section \<open>A recording environment\<close>

text \<open>
  To run the operations, the state is the list of requests made so far, and every request
  is answered with a fixed pointer.
\<close>

datatype event =
    AlignedAlloc size_t size_t
  | Realloc ptr size_t
  | Free ptr
  | Memcpy ptr ptr size_t
  | Request ptr size_t


definition rec_alloc :: "ptr \<Rightarrow> event list alloc_t" where
  "rec_alloc answer p n h = (answer, h @ [Request p n])"

definition rec_memcpy :: "event list memcpy_t" where
  "rec_memcpy d s n h = h @ [Memcpy d s n]"


section \<open>Facts about the builtins and about masks\<close>

lemma filter_eq_upt: "filter (\<lambda>n. n = k) [0..<m] = (if k < m then [k] else [])"
  by (induction m) auto

lemma takeWhile_neq_upt: "takeWhile (\<lambda>n. n \<noteq> k) [0..<m] = [0..<min k m]"
proof (induction m)
  case 0
  then show ?case by simp
next
  case (Suc m)
  show ?case
  proof (cases "k < m")
    case True
    then have "k \<in> set [0..<m]" by simp
    then show ?thesis
      using Suc True by (simp add: takeWhile_append1 min_def)
  next
    case False
    then have eq: "takeWhile (\<lambda>n. n \<noteq> k) ([0..<m] @ [m]) = [0..<m] @ takeWhile (\<lambda>n. n \<noteq> k) [m]"
      by (intro takeWhile_append2) auto
    show ?thesis
    proof (cases "k = m")
      case True
      with eq show ?thesis by simp
    next
      case ne: False
      with \<open>\<not> k < m\<close> have "Suc m \<le> k" by simp
      with eq ne show ?thesis by (simp add: min_def)
    qed
  qed
qed

lemma bit_ucast_pow2: "bit (ucast ((2::64 word) ^ k) :: 32 word) n \<longleftrightarrow> n = k \<and> k < 32"
  by (auto simp: bit_simps)

text \<open>
  The popcount builtin sees only the low 32 bits: of the 64 powers of two of a \<open>size_t\<close>,
  it counts one bit in the lower 32 and none in the upper 32.
\<close>

lemma builtin_popcount_pow2: "builtin_popcount (2 ^ k) = (if k < 32 then 1 else 0)"
proof -
  have "bit (ucast ((2::64 word) ^ k) :: 32 word) = (\<lambda>n. n = k \<and> k < 32)"
    by (rule ext) (rule bit_ucast_pow2)
  then have "filter (bit (ucast ((2::64 word) ^ k) :: 32 word)) [0..<32] =
      filter (\<lambda>n. n = k \<and> k < 32) [0..<32]"
    by (rule arg_cong)
  also have "\<dots> = (if k < 32 then [k] else [])"
    using filter_eq_upt [of k 32] by simp
  finally show ?thesis
    by (simp add: builtin_popcount_def)
qed

lemma builtin_ctz_pow2: "k < 32 \<Longrightarrow> builtin_ctz (2 ^ k) = k"
proof -
  assume k: "k < 32"
  have "(\<lambda>n. \<not> bit (ucast ((2::64 word) ^ k) :: 32 word) n) = (\<lambda>n. n \<noteq> k)"
    using k by (simp add: bit_ucast_pow2)
  then have "builtin_ctz (2 ^ k) = length (takeWhile (\<lambda>n. n \<noteq> k) [0..<32])"
    by (simp add: builtin_ctz_def)
  also have "\<dots> = k"
    using k by (simp only: takeWhile_neq_upt) simp
  finally show ?thesis .
qed

lemma unat_pow2: "k < 64 \<Longrightarrow> unat ((2::64 word) ^ k) = 2 ^ k"
proof -
  assume k: "k < 64"
  have "(2::64 word) ^ k = of_nat (2 ^ k)"
    by simp
  then have "unat ((2::64 word) ^ k) = (2 ^ k) mod 2 ^ LENGTH(64)"
    by (simp only: unat_of_nat)
  also have "\<dots> = 2 ^ k"
    using power_strict_increasing [of k 64 "2::nat"] k by simp
  finally show ?thesis .
qed

text \<open>A word is the sum of its part above a mask and its part under it.\<close>

lemma word_and_split: "(x AND NOT m) + (x AND m) = (x::'a::len word)"
proof -
  have "(x AND NOT m) AND (x AND m) = 0"
    by (auto simp: bit_eq_iff bit_simps)
  then have "(x AND NOT m) + (x AND m) = (x AND NOT m) OR (x AND m)"
    by (rule disjunctive_add_eq_or)
  also have "\<dots> = x"
    by (auto simp: bit_eq_iff bit_simps)
  finally show ?thesis .
qed

lemma word_not_and_split: "(x AND m) + (NOT x AND m) = (m::'a::len word)"
  using word_and_split [of m x] by (simp add: ac_simps)

lemma unat_and_mask: "unat ((x::'a::len word) AND mask k) = unat x mod 2 ^ k"
proof -
  have "unat (x AND mask k) = unat (take_bit k x)"
    by (simp only: take_bit_eq_mask)
  also have "\<dots> = take_bit k (unat x)"
    by (rule unsigned_take_bit_eq)
  also have "\<dots> = unat x mod 2 ^ k"
    by (rule take_bit_eq_mod)
  finally show ?thesis .
qed

lemma unat_and_not_mask: "unat ((x::'a::len word) AND NOT (mask k)) = unat x - unat x mod 2 ^ k"
proof -
  have le: "x AND NOT (mask k) \<le> x"
    by (rule word_and_le2)
  have "x AND mask k = x - (x AND NOT (mask k))"
    using word_and_split [of x "mask k"] by (simp add: algebra_simps)
  then have "unat (x AND mask k) = unat x - unat (x AND NOT (mask k))"
    using le by (simp add: unat_sub)
  moreover have "unat (x AND NOT (mask k)) \<le> unat x"
    using le by (simp add: word_le_nat_alt)
  ultimately show ?thesis
    by (simp add: unat_and_mask)
qed


section \<open>Aligned reallocation\<close>

lemma is_aligned_null: "is_aligned NULL k"
  by (simp add: is_aligned_def NULL_def)

text \<open>
  What each exit returns: the two definitions describe one function.
\<close>

lemma aligned_realloc_by_exit:
  "aligned_realloc L p alignment size' h =
     (let (new, h1) = c_aligned_alloc L alignment size' h;
          (attempt, h2) = c_realloc L p size' h1
      in case aligned_realloc_exit L p alignment size' h of
           Exit_alloc \<Rightarrow> (new, h1)
         | Exit_release \<Rightarrow> (NULL, c_free L p h)
         | Exit_alignment \<Rightarrow> (NULL, h)
         | Exit_reservation \<Rightarrow> (NULL, h1)
         | Exit_cheap_path \<Rightarrow> (attempt, c_free L new h2)
         | Exit_copy \<Rightarrow> (new, c_free L attempt (c_memcpy L new attempt size' h2)))"
  by (simp add: aligned_realloc_def aligned_realloc_exit_def split: prod.splits)

text \<open>
  The outcome of a failed reallocation. With a non-null pointer, a nonzero size and an
  alignment \<open>2 ^ k\<close>, a call in which \<open>realloc\<close> returns the null pointer returns the null
  pointer; when the reservation was made, the heap it leaves is the heap after the failed
  \<open>realloc\<close> with the reservation freed.
\<close>

lemma aligned_realloc_failed_attempt:
  assumes "p \<noteq> NULL" and "size' \<noteq> 0" and "alignment = 2 ^ k" and "k < 64"
    and "c_aligned_alloc L alignment size' h = (new, h1)"
    and "c_realloc L p size' h1 = (NULL, h2)"
  shows "aligned_realloc L p alignment size' h =
           (NULL, if 32 \<le> k then h else if new = NULL then h1 else c_free L new h2)"
  using assms by (simp add: aligned_realloc_def builtin_popcount_pow2 is_aligned_null)

text \<open>
  That outcome is not reached by a test of the result. Whenever the reservation was made
  and \<open>realloc\<close> fails, the function leaves by the cheap path, the exit of a reallocation
  that succeeded and happens to be aligned.
\<close>

lemma aligned_realloc_exit_failed_attempt:
  assumes "p \<noteq> NULL" and "size' \<noteq> 0" and "alignment = 2 ^ k" and "k < 32"
    and "c_aligned_alloc L alignment size' h = (new, h1)" and "new \<noteq> NULL"
    and "c_realloc L p size' h1 = (NULL, h2)"
  shows "aligned_realloc_exit L p alignment size' h = Exit_cheap_path"
  using assms by (simp add: aligned_realloc_exit_def builtin_popcount_pow2 is_aligned_null)


text \<open>
  Claim C10. \<open>is_aligned\<close> answers true for the null pointer at every log-alignment \<open>k\<close>
  (whatever the mask is, the null address has no bit in it; C leaves the shift undefined
  for \<open>64 \<le> k\<close>, where the model's mask is all ones). So the test of the cheap path of
  \<open>aligned_realloc\<close>, \<open>is_aligned(attempt, __builtin_ctz(alignment))\<close>, holds for a null
  \<open>attempt\<close> at every alignment.
\<close>

theorem is_aligned_NULL_every_alignment:
  "is_aligned NULL k \<and> is_aligned NULL (of_nat (builtin_ctz alignment))"
  by (simp add: is_aligned_def NULL_def)

section \<open>Slices\<close>

lemma unat_len_larr_advance: "unat (larr.len (larr_advance a n es)) = unat (larr.len a) - unat n"
  by (auto simp: larr_advance_def Let_def word_less_nat_alt unat_sub word_le_nat_alt not_less)

text \<open>
  Claim C9. \<open>_larr_advance\<close> clamps \<open>n\<close> to the length, takes the clamped \<open>n\<close> off the
  length, which leaves \<open>max(0, oldLength - n)\<close>, and adds the clamped \<open>n\<close> times the
  element size to the pointer; and for \<open>n \<le> oldLength\<close>, \<open>_larr_addrof\<close> of index 0
  after the advance is \<open>_larr_addrof\<close> of index \<open>n\<close> before it (both are the null pointer
  when \<open>n\<close> is the length).
\<close>

theorem larr_advance_spec:
  "larr_advance a n es = \<lparr>larr.len = larr.len a - min n (larr.len a), arr = arr a + es * min n (larr.len a)\<rparr> \<and>
   int (unat (larr.len (larr_advance a n es))) = max 0 (int (unat (larr.len a)) - int (unat n)) \<and>
   (n \<le> larr.len a \<longrightarrow> larr_addrof (larr_advance a n es) 0 es = larr_addrof a n es)"
proof (intro conjI impI)
  show "larr_advance a n es = \<lparr>larr.len = larr.len a - min n (larr.len a), arr = arr a + es * min n (larr.len a)\<rparr>"
    by (simp add: larr_advance_def Let_def min_def not_less)
  show "int (unat (larr.len (larr_advance a n es))) = max 0 (int (unat (larr.len a)) - int (unat n))"
    unfolding unat_len_larr_advance by linarith
  show "larr_addrof (larr_advance a n es) 0 es = larr_addrof a n es" if "n \<le> larr.len a"
    using that
    by (auto simp: larr_advance_def Let_def larr_addrof_def not_less word_less_nat_alt
        unat_sub word_le_nat_alt)
qed

theorem larr_advance_spec_witness:
  "(2 :: size_t) \<le> larr.len (larr_mk 5 0x100) \<and>
   larr_advance (larr_mk 5 0x100) 2 4 = \<lparr>larr.len = 3, arr = 0x108\<rparr> \<and>
   larr_addrof (larr_advance (larr_mk 5 0x100) 2 4) 0 4 = 0x108 \<and>
   larr_addrof (larr_mk 5 0x100) 2 4 = 0x108 \<and>
   larr_advance (larr_mk 5 0x100) 7 4 = \<lparr>larr.len = 0, arr = 0x114\<rparr>"
  using larr_advance_spec [of "larr_mk 5 0x100" 2 4] larr_advance_spec [of "larr_mk 5 0x100" 7 4]
  by (simp add: larr_mk_def larr_addrof_def)


section \<open>Alignment arithmetic\<close>

lemma alignDown_pow2: "k < 32 \<Longrightarrow> alignDown x (2 ^ k) = Inr (x AND NOT (mask k))"
  by (simp add: alignDown_def builtin_popcount_pow2 mask_eq_exp_minus_1)

text \<open>Rounding up an unaligned value adds one alignment to the value rounded down.\<close>

lemma alignUp_pow2:
  "k < 32 \<Longrightarrow> alignUp x (2 ^ k) =
     Inr (if x AND mask k \<noteq> 0 then (x AND NOT (mask k)) + 2 ^ k else x)"
proof -
  assume k: "k < 32"
  have "x + ((NOT x AND mask k) + 1) =
      (x AND NOT (mask k)) + ((x AND mask k) + (NOT x AND mask k)) + 1"
    using word_and_split [of x "mask k"] by (simp add: algebra_simps)
  also have "\<dots> = (x AND NOT (mask k)) + 2 ^ k"
    by (simp add: word_not_and_split mask_eq_exp_minus_1)
  finally show ?thesis
    using k by (simp add: alignUp_def builtin_popcount_pow2 flip: mask_eq_exp_minus_1)
qed

text \<open>
  Claim C7, as the sources have it. For every 64-bit \<open>x\<close> and every power of two
  \<open>p = 2 ^ k\<close> with \<open>k < 32\<close>, both functions return a value, \<open>alignDown(x,p) \<le> x\<close>, and both
  return \<open>x\<close> itself when \<open>x\<close> is a multiple of \<open>p\<close>. If moreover \<open>x + p \<le> 2 ^ 64\<close>, that is,
  if the next multiple of \<open>p\<close> is still an address, then
  \<open>x \<le> alignUp(x,p) \<le> alignDown(x,p) + p\<close> and \<open>alignUp(x,p) < x + p\<close>, read as unbounded
  integers.
\<close>

theorem alignUp_alignDown_bounds:
  fixes x :: uintptr_t
  assumes k: "k < 32"
  shows "\<exists>d u. alignDown x (2 ^ k) = Inr d \<and> alignUp x (2 ^ k) = Inr u \<and> d \<le> x \<and>
           (2 ^ k dvd unat x \<longrightarrow> d = x \<and> u = x) \<and>
           (unat x + 2 ^ k \<le> 2 ^ 64 \<longrightarrow>
              x \<le> u \<and> unat u \<le> unat d + 2 ^ k \<and> unat u < unat x + 2 ^ k)"
proof -
  define d where "d = x AND NOT (mask k)"
  define u where "u = (if x AND mask k \<noteq> 0 then d + 2 ^ k else x)"
  have D: "alignDown x (2 ^ k) = Inr d"
    using k by (simp add: alignDown_pow2 d_def)
  have U: "alignUp x (2 ^ k) = Inr u"
    using k by (simp add: alignUp_pow2 u_def d_def)
  have ud: "unat d = unat x - unat x mod 2 ^ k"
    by (simp add: d_def unat_and_not_mask)
  have aligned: "x AND mask k = 0 \<longleftrightarrow> 2 ^ k dvd unat x"
    by (simp add: unat_and_mask dvd_eq_mod_eq_0 flip: unat_eq_0)
  have le: "d \<le> x"
    by (simp add: d_def word_and_le2)
  have idem: "d = x \<and> u = x" if "2 ^ k dvd unat x"
  proof -
    from that have "unat d = unat x"
      by (simp add: ud dvd_eq_mod_eq_0)
    then have "d = x" by (simp add: word_unat_eq_iff)
    moreover have "u = x" using that aligned by (simp add: u_def)
    ultimately show ?thesis by simp
  qed
  have up: "x \<le> u \<and> unat u \<le> unat d + 2 ^ k \<and> unat u < unat x + 2 ^ k"
    if fit: "unat x + 2 ^ k \<le> 2 ^ 64"
  proof (cases "x AND mask k = 0")
    case True
    then have "u = x" by (simp add: u_def)
    moreover have "unat d = unat x"
      using True aligned by (simp add: ud dvd_eq_mod_eq_0)
    ultimately show ?thesis by simp
  next
    case False
    then have pos: "0 < unat x mod 2 ^ k"
      using aligned by (simp add: dvd_eq_mod_eq_0)
    have mod_le: "unat x mod 2 ^ k \<le> unat x" by simp
    have lt: "unat x mod 2 ^ k < 2 ^ k" by simp
    have p2: "unat ((2::64 word) ^ k) = 2 ^ k"
      using k by (simp add: unat_pow2)
    have "unat d + unat ((2::64 word) ^ k) < 2 ^ LENGTH(64)"
      using fit pos mod_le ud p2 by simp
    then have "unat (d + 2 ^ k) = unat d + unat ((2::64 word) ^ k)"
      by (rule unat_add_lem [THEN iffD1])
    then have uu: "unat u = unat x - unat x mod 2 ^ k + 2 ^ k"
      using False by (simp add: u_def ud p2)
    have "unat x \<le> unat u"
      using uu mod_le lt by linarith
    then have "x \<le> u" by (simp add: word_le_nat_alt)
    moreover have "unat u \<le> unat d + 2 ^ k"
      using uu ud by simp
    moreover have "unat u < unat x + 2 ^ k"
      using uu pos mod_le by linarith
    ultimately show ?thesis by simp
  qed
  show ?thesis
    using D U le idem up by blast
qed

theorem alignUp_alignDown_bounds_witness:
  "(3::nat) < 32 \<and> unat (13 :: uintptr_t) + 2 ^ 3 \<le> 2 ^ 64 \<and>
   alignDown 13 (2 ^ 3) = Inr 8 \<and> alignUp 13 (2 ^ 3) = Inr 16 \<and>
   2 ^ 3 dvd unat (16 :: uintptr_t) \<and>
   alignDown 16 (2 ^ 3) = Inr 16 \<and> alignUp 16 (2 ^ 3) = Inr 16"
proof -
  have run: "alignDown 13 8 = Inr 8 \<and> alignUp 13 8 = Inr 16"
    by code_simp
  show ?thesis
    using alignUp_alignDown_bounds [of 3 13] alignUp_alignDown_bounds [of 3 16] run
    by simp
qed

text \<open>
  The claim as written fails in three places. At \<open>x = 1\<close>, \<open>p = 2\<close> the rounded-up value
  is \<open>alignDown + p\<close> itself, not below it. At \<open>x = 2 ^ 64 - 1\<close>, \<open>p = 2\<close> the addition wraps
  and \<open>alignUp\<close> returns 0, below \<open>x\<close>. At the power of two \<open>p = 2 ^ 32\<close> the assertion
  fails, because \<open>__builtin_popcount\<close> reads its argument as an \<open>unsigned int\<close>.
\<close>

theorem alignUp_alignDown_counterexample:
  "alignUp 1 2 = Inr 2 \<and> alignDown 1 2 = Inr 0 \<and> \<not> ((2 :: uintptr_t) < 0 + 2) \<and>
   alignUp (- 1) 2 = Inr 0 \<and> \<not> ((- 1 :: uintptr_t) \<le> 0) \<and>
   alignUp 1 (2 ^ 32) = Inl AssertionFailed"
  by code_simp


section \<open>Tagged pointers\<close>

lemma PTRMASK_pow2: "k < 32 \<Longrightarrow> CHIM_PTRTAG_PTRMASK (2 ^ k) = NOT (mask k)"
  by (simp add: CHIM_PTRTAG_PTRMASK_def CHIM_PTRTAGBITS_MAX_def builtin_ctz_pow2)

text \<open>
  With a maximum fundamental alignment of \<open>2 ^ k\<close>, \<open>is_taggable\<close> holds of the addresses
  below \<open>2 ^ k\<close> and of no other: it masks with the pointer mask, so it tests the high
  bits.
\<close>

lemma is_taggable_pow2:
  assumes "k < 32"
  shows "is_taggable (2 ^ k) p \<longleftrightarrow> unat p < 2 ^ k"
proof -
  have "is_taggable (2 ^ k) p \<longleftrightarrow> unat (p AND NOT (mask k)) = 0"
    using assms by (simp add: is_taggable_def PTRMASK_pow2 unat_eq_0)
  also have "\<dots> \<longleftrightarrow> unat p - unat p mod 2 ^ k = 0"
    by (simp only: unat_and_not_mask)
  also have "\<dots> \<longleftrightarrow> unat p < 2 ^ k"
  proof
    assume "unat p - unat p mod 2 ^ k = 0"
    moreover have "unat p mod 2 ^ k < 2 ^ k" by simp
    ultimately show "unat p < 2 ^ k" by linarith
  next
    assume "unat p < 2 ^ k"
    then show "unat p - unat p mod 2 ^ k = 0" by simp
  qed
  finally show ?thesis .
qed

text \<open>
  The packing itself, \<open>ptr | tag\<close>, is undone by \<open>unTag\<close> and \<open>getTag\<close> for an aligned
  pointer and a tag below \<open>2 ^ k\<close>; what stands in the way of \<open>to_tagged_ptr\<close> are its
  assertions.
\<close>

lemma tag_bits_roundtrip:
  assumes k: "k < 32" and p: "p AND mask k = 0" and t: "unat tag < 2 ^ k"
  shows "unTag (2 ^ k) (p OR tag) = p \<and> getTag (2 ^ k) (p OR tag) = tag"
proof -
  have p': "p AND NOT (mask k) = p"
    using word_and_split [of p "mask k"] p by simp
  have "unat (tag AND mask k) = unat tag"
    using t by (simp add: unat_and_mask)
  then have t': "tag AND mask k = tag"
    by (simp only: word_unat_eq_iff)
  then have t'': "tag AND NOT (mask k) = 0"
    using word_and_split [of tag "mask k"] by simp
  have "(p OR tag) AND NOT (mask k) = (p AND NOT (mask k)) OR (tag AND NOT (mask k))"
    by (rule bit.conj_disj_distrib2)
  moreover have "(p OR tag) AND mask k = (p AND mask k) OR (tag AND mask k)"
    by (rule bit.conj_disj_distrib2)
  ultimately show ?thesis
    using k by (simp add: unTag_def getTag_def CHIM_PTRTAG_BITSMASK_def PTRMASK_pow2 p p' t' t'')
qed

text \<open>
  Claim C4. \<open>is_taggable\<close> is to hold exactly of the pointers whose low tag bits are
  clear. On a platform whose maximum fundamental alignment is 16 (four tag bits), the
  address \<open>0x10\<close> has its four low bits clear and is refused, and the address 1 has a low
  bit set and is accepted.
\<close>

theorem is_taggable_tests_high_bits:
  "CHIM_PTRTAGBITS_MAX 16 = 4 \<and>
   (0x10 :: ptr) AND mask 4 = 0 \<and> \<not> is_taggable 16 0x10 \<and>
   (1 :: ptr) AND mask 4 \<noteq> 0 \<and> is_taggable 16 1"
  by code_simp

text \<open>
  Claim C5. \<open>setTag\<close> is to replace the tag of a tagged pointer. With four tag bits, the
  tagged pointer \<open>0x11\<close> (pointer \<open>0x10\<close>, tag 1) given the new tag 2 becomes \<open>0x13\<close>, whose
  tag is 3: the old tag bits stay, the new ones are or-ed in.
\<close>

theorem setTag_keeps_old_tag:
  "getTag 16 0x11 = 1 \<and> unTag 16 0x11 = 0x10 \<and>
   setTag 16 0x11 2 = Inr 0x13 \<and> getTag 16 0x13 = 3 \<and> unTag 16 0x13 = 0x10"
  by code_simp

text \<open>
  Claim C8. Packing an aligned pointer with a tag below \<open>2 ^ tagBits\<close> is to pass the
  assertions of \<open>to_tagged_ptr\<close> and to round-trip. With four tag bits, the aligned
  pointer \<open>0x10\<close> with tag 1 fails the assertion \<open>is_taggable(ptr)\<close>, and the null pointer
  with tag 4 fails the assertion of \<open>setTag\<close>, which masks the tag with the number of tag
  bits.
\<close>

theorem to_tagged_ptr_assertion_fails:
  "(0x10 :: ptr) AND mask 4 = 0 \<and> to_tagged_ptr 16 0x10 1 = Inl AssertionFailed \<and>
   to_tagged_ptr 16 NULL 4 = Inl AssertionFailed"
  by code_simp

section \<open>Growable buffer\<close>

text \<open>What the failure paths of the buffer do keep.\<close>

lemma dynarr_resize_False_unchanged:
  "dynarr_resize mem a newCap elemSize h = (False, a', h') \<Longrightarrow> a' = a"
  by (auto simp: dynarr_resize_def Let_def split: prod.splits if_splits)

lemma dynarr_push_False_len_buf:
  "dynarr_push mem memcpy a elem elemSize h = Inr (False, a', h') \<Longrightarrow>
     len a' = len a \<and> buf a' = buf a"
  by (auto simp: dynarr_push_def dynarr_push_copy_def Let_def split: prod.splits if_splits)

lemma dynarr_init_True:
  "dynarr_init mem a cap0 size' h = (True, a', h') \<Longrightarrow>
     cap a' = cap0 \<and> len a' = 0 \<and> buf a' \<noteq> NULL \<and> cap0 \<noteq> 0"
  by (auto simp: dynarr_init_def Let_def split: prod.splits if_splits)

text \<open>
  Claim C2. A push or resize that returns false is to leave capacity, length and storage
  pointer as they were. \<open>_dynarr_push\<close> doubles the capacity before it asks for memory,
  and then tests the buffer's own pointer, not the pointer it was given: on the full
  buffer of capacity 1 whose storage pointer is null it returns false with capacity 2
  (and has asked the allocator for a block that it drops).
\<close>

theorem dynarr_push_false_changes_cap:
  "dynarr_push (rec_alloc 0x1000) rec_memcpy \<lparr>cap = 1, len = 1, buf = NULL\<rparr> 0x500 4 [] =
     Inr (False, \<lparr>cap = 2, len = 1, buf = NULL\<rparr>, [Request NULL 8])"
  by code_simp

text \<open>
  The same test lets a failed reallocation through: with an allocator that answers null,
  a push on a full buffer stores the null pointer, copies the element to the address
  \<open>0 + elemSize * len\<close> and returns true.
\<close>

lemma dynarr_push_failed_realloc:
  "dynarr_push (rec_alloc NULL) rec_memcpy \<lparr>cap = 1, len = 1, buf = 0x1000\<rparr> 0x500 4 [] =
     Inr (True, \<lparr>cap = 2, len = 2, buf = NULL\<rparr>, [Request 0x1000 8, Memcpy 4 0x500 4])"
  by code_simp

text \<open>
  Claim C3. A resize to \<open>newCap\<close> is to reallocate the storage to \<open>newCap * elemSize\<close>
  bytes. \<open>_dynarr_resize\<close> asks for \<open>cap * elemSize\<close> bytes, the size the storage has
  already: resizing a buffer of capacity 4 with 4-byte elements to capacity 8 requests 16
  bytes, not 32, and records capacity 8.
\<close>

theorem dynarr_resize_requests_old_size:
  "dynarr_resize (rec_alloc 0x2000) \<lparr>cap = 4, len = 0, buf = 0x1000\<rparr> 8 4 [] =
     (True, \<lparr>cap = 8, len = 0, buf = 0x2000\<rparr>, [Request 0x1000 16])"
  by code_simp

text \<open>
  Claim C6. \<open>_dynarr_init\<close> is to fail whenever \<open>cap0 * size\<close> overflows. Its test
  \<open>cap0 * size < size\<close> misses a product that wraps to \<open>size\<close> or more: with
  \<open>cap0 = 2 ^ 60 + 1\<close> and 16-byte elements the product is \<open>2 ^ 64 + 16\<close>, it wraps to 16,
  the allocator is asked for 16 bytes, and the call succeeds with capacity \<open>2 ^ 60 + 1\<close>.
\<close>

theorem dynarr_init_wrapped_product:
  "2 ^ 64 \<le> unat (2 ^ 60 + 1 :: size_t) * unat (16 :: size_t) \<and>
   dynarr_init (rec_alloc 0x1000) \<lparr>cap = 0, len = 0, buf = NULL\<rparr> (2 ^ 60 + 1) 16 [] =
     (True, \<lparr>cap = 2 ^ 60 + 1, len = 0, buf = 0x1000\<rparr>, [Request NULL 16])"
proof
  show "2 ^ 64 \<le> unat (2 ^ 60 + 1 :: size_t) * unat (16 :: size_t)"
    by simp
  show "dynarr_init (rec_alloc 0x1000) \<lparr>cap = 0, len = 0, buf = NULL\<rparr> (2 ^ 60 + 1) 16 [] =
     (True, \<lparr>cap = 2 ^ 60 + 1, len = 0, buf = 0x1000\<rparr>, [Request NULL 16])"
    by (simp add: dynarr_init_def allocIn_def rec_alloc_def NULL_def)
qed

end
